theory Spec2Isabelle
  imports Complex_Main "HOL-Library.Multiset" "HOL-Library.List_Lexorder" "HOL-Library.Char_ord"
begin

section \<open>MonsoonViz: the weather dashboard of dashboard.py and dashboard-with-API.py\<close>

text \<open>
  The repository holds two versions of one class, \<open>IndiaWeatherDashboard\<close>. A constant
  without a prefix embeds a function of \<^verbatim>\<open>dashboard-with-API.py\<close>; a constant
  whose name starts with \<open>dashboard_\<close> embeds the function of the same name of
  \<^verbatim>\<open>dashboard.py\<close>. Python floats are idealised as \<open>real\<close>. What the
  outside world answers (the HTTP API, the files on disk, the clock, the random number
  generator, the plotting library) is an argument of the model.
\<close>

subsection \<open>Exceptions\<close>

text \<open>
  The exception classes the two files can meet. \<open>except FileNotFoundError\<close> catches
  the first only; \<open>except Exception\<close> and a bare \<open>except\<close> catch all of them.
\<close>

datatype error =
    FileNotFoundError
  | PermissionError
  | EmptyDataError
  | ParserError
  | ValueError
  | KeyError
  | RequestException

text \<open>Sequencing of statements that may raise: the first exception ends the block.\<close>

definition and_then :: "error + 'a \<Rightarrow> ('a \<Rightarrow> error + 'b) \<Rightarrow> error + 'b" where
  "and_then r f = (case r of Inl e \<Rightarrow> Inl e | Inr x \<Rightarrow> f x)"

text \<open>\<^verbatim>\<open>try: body  except FileNotFoundError: handler\<close>\<close>

definition except_FileNotFoundError :: "error + 'a \<Rightarrow> (error + 'a) \<Rightarrow> error + 'a" where
  "except_FileNotFoundError body handler =
     (case body of
        Inl e \<Rightarrow> (if e = FileNotFoundError then handler else Inl e)
      | Inr x \<Rightarrow> Inr x)"

text \<open>\<^verbatim>\<open>try: body  except Exception: handler\<close> (and the bare \<open>except\<close>)\<close>

definition except_Exception :: "error + 'a \<Rightarrow> (error \<Rightarrow> error + 'a) \<Rightarrow> error + 'a" where
  "except_Exception body handler =
     (case body of Inl e \<Rightarrow> handler e | Inr x \<Rightarrow> Inr x)"

subsection \<open>Data frames and arrays\<close>

text \<open>
  A pandas DataFrame of one row type. \<open>pd.DataFrame([])\<close> has neither rows nor
  columns (\<open>NoColumns\<close>); every other frame of the program has its columns and a list
  of rows, possibly empty (a CSV file holding a header only).
\<close>

datatype 'r frame = NoColumns | Frame "'r list"

fun frame_rows :: "'r frame \<Rightarrow> 'r list" where
  "frame_rows NoColumns = []"
| "frame_rows (Frame rs) = rs"


text \<open>\<open>pd.DataFrame(records)\<close> for a list of dicts that all have the same keys.\<close>

definition DataFrame_records :: "'r list \<Rightarrow> 'r frame" where
  "DataFrame_records rs = (if rs = [] then NoColumns else Frame rs)"

text \<open>\<open>np.repeat(xs, n)\<close>: every element n times, in place.\<close>

definition np_repeat :: "'a list \<Rightarrow> nat \<Rightarrow> 'a list" where
  "np_repeat xs n = concat (map (replicate n) xs)"

text \<open>\<open>xs * n\<close> on a Python list and \<open>np.tile(xs, n)\<close>: the whole list n times.\<close>

definition list_times :: "'a list \<Rightarrow> nat \<Rightarrow> 'a list" where
  "list_times xs n = concat (replicate n xs)"

definition np_tile :: "'a list \<Rightarrow> nat \<Rightarrow> 'a list" where
  "np_tile xs n = concat (replicate n xs)"

text \<open>\<open>np.linspace(start, stop, num)\<close>: num evenly spaced samples, both ends included.\<close>

definition np_linspace :: "real \<Rightarrow> real \<Rightarrow> nat \<Rightarrow> real list" where
  "np_linspace start stop num =
     map (\<lambda>i. start + real i * ((stop - start) / real (num - 1))) [0..<num]"

definition np_sin :: "real list \<Rightarrow> real list" where
  "np_sin xs = map sin xs"

text \<open>\<open>np.radians\<close>\<close>

definition np_radians :: "real \<Rightarrow> real" where
  "np_radians d = d * pi / 180"

text \<open>
  An operator between a column of a frame and an array (\<open>series += array\<close>,
  \<open>series *= array\<close>): element by element, ValueError when the lengths differ.
\<close>

definition series_op :: "(real \<Rightarrow> real \<Rightarrow> real) \<Rightarrow> real list \<Rightarrow> real list \<Rightarrow> error + real list" where
  "series_op f xs ys =
     (if length xs = length ys then Inr (map2 f xs ys) else Inl ValueError)"

subsection \<open>The fixed locations\<close>

text \<open>\<open>STATE_NAMES\<close>: city to state, in the order the dict literal lists them.\<close>

definition STATE_NAMES :: "(string \<times> string) list" where
  "STATE_NAMES =
     [(''Mumbai'', ''Maharashtra''),
      (''Delhi'', ''Delhi''),
      (''Bangalore'', ''Karnataka''),
      (''Chennai'', ''Tamil Nadu''),
      (''Jaipur'', ''Rajasthan''),
      (''Lucknow'', ''Uttar Pradesh''),
      (''Kolkata'', ''West Bengal'')]"

text \<open>The list of states dashboard.py writes out twice.\<close>

definition dashboard_states :: "string list" where
  "dashboard_states =
     [''Maharashtra'', ''Delhi'', ''Karnataka'', ''Tamil Nadu'',
      ''Rajasthan'', ''Uttar Pradesh'', ''West Bengal'']"

definition months :: "string list" where
  "months = [''Jan'', ''Feb'', ''Mar'', ''Apr'', ''May'', ''Jun'',
             ''Jul'', ''Aug'', ''Sep'', ''Oct'', ''Nov'', ''Dec'']"

subsection \<open>Geometry: \<open>_load_india_shapefile\<close>\<close>

datatype geometry = Point real real | Polygon "(real \<times> real) list"

text \<open>
  A row of \<open>self.india_states\<close>. The fallback table has the three columns and a point;
  a shapefile's rows carry what the file holds (no latitude or longitude column is
  required of it).
\<close>

record geo_row =
  g_State :: string
  g_Latitude :: "real option"
  g_Longitude :: "real option"
  g_geometry :: geometry

text \<open>
  \<open>gpd.GeoDataFrame(states, geometry=gpd.points_from_xy(states['Longitude'],
  states['Latitude']))\<close>: the columns of the dict side by side, the point of a row built
  from its longitude (x) and latitude (y). Columns of different lengths raise ValueError.
\<close>

definition points_from_xy :: "real list \<Rightarrow> real list \<Rightarrow> error + geometry list" where
  "points_from_xy xs ys =
     (if length xs = length ys then Inr (map2 Point xs ys) else Inl ValueError)"

definition GeoDataFrame :: "string list \<Rightarrow> real list \<Rightarrow> real list \<Rightarrow> geometry list \<Rightarrow> error + geo_row list" where
  "GeoDataFrame st la lo ge =
     (if length la = length st \<and> length lo = length st \<and> length ge = length st
      then Inr (map (\<lambda>(s, a, b, g).
                  \<lparr>g_State = s, g_Latitude = Some a, g_Longitude = Some b, g_geometry = g\<rparr>)
                (zip st (zip la (zip lo ge))))
      else Inl ValueError)"

text \<open>
  dashboard-with-API.py, lines 44-59. The argument is what
  \<open>gpd.read_file('data/processed/india_states.shp')\<close> does: the table read, or the
  exception raised.
\<close>

definition load_india_shapefile :: "error + geo_row list \<Rightarrow> error + geo_row list" where
  "load_india_shapefile read_file =
     except_Exception read_file (\<lambda>e.
       let State = map snd STATE_NAMES;
           Latitude = [19.7515, 28.7041, 15.3173, 13.0827, 27.0238, 26.8467, 22.9868];
           Longitude = [75.7139, 77.1025, 75.7139, 80.2707, 74.2179, 80.9462, 87.8550]
       in and_then (points_from_xy Longitude Latitude)
            (\<lambda>pts. GeoDataFrame State Latitude Longitude pts))"

text \<open>dashboard.py, lines 25-41: a bare \<open>except\<close>, and other coordinates for Tamil Nadu.\<close>

definition dashboard_load_india_shapefile :: "error + geo_row list \<Rightarrow> error + geo_row list" where
  "dashboard_load_india_shapefile read_file =
     except_Exception read_file (\<lambda>e.
       let State = dashboard_states;
           Latitude = [19.7515, 28.7041, 15.3173, 11.1271, 27.0238, 26.8467, 22.9868];
           Longitude = [75.7139, 77.1025, 75.7139, 78.6569, 74.2179, 80.9462, 87.8550]
       in and_then (points_from_xy Longitude Latitude)
            (\<lambda>pts. GeoDataFrame State Latitude Longitude pts))"

subsection \<open>The world outside the program\<close>

text \<open>
  The fields of \<open>current\<close> and \<open>location\<close> that \<open>_fetch_api_data\<close> copies out of
  the JSON answer.
\<close>

record weather =
  temp_c :: real
  precip_mm :: real
  wind_kph :: real
  wind_degree :: real
  lat :: real
  lon :: real

record temp_row =
  t_State :: string
  t_Month :: string
  Avg_Temp :: real
  t_Latitude :: real
  t_Longitude :: "real option"

record rain_row =
  r_State :: string
  r_Month :: string
  Rainfall :: real

record wind_row =
  w_State :: string
  w_U :: real
  w_V :: real
  w_Latitude :: real
  w_Longitude :: real

text \<open>
  What one run sees of the outside:
  \<^item> \<open>api_get city\<close>: the outcome of lines 64-80 of dashboard-with-API.py for the city
    (the request, \<open>raise_for_status\<close>, the JSON decoding and the six field reads): the
    six numbers, or the exception one of these steps raised;
  \<^item> \<open>now_month\<close>: \<open>datetime.now().strftime('%b')\<close>, which the loop reads once per
    city and which is one value for the run here;
  \<^item> \<open>temperature_csv\<close>, \<open>rainfall_csv\<close>, \<open>wind_csv\<close>: what \<open>pd.read_csv\<close> does on
    the three files under \<open>data/processed\<close>;
  \<^item> \<open>standard_normal\<close>, \<open>standard_gamma\<close>: the draws of numpy's global random
    generator, which neither file seeds;
  \<^item> \<open>draw_wind df\<close>: what the plotting calls of \<open>plot_wind_patterns\<close> between the
    guard and \<open>plt.savefig\<close> do on the frame (\<open>plt.figure\<close>, \<open>plt.quiver\<close>, the
    boundary plot, the labels): \<open>None\<close> when they all return, the exception otherwise.
\<close>

record world =
  api_get :: "string \<Rightarrow> error + weather"
  now_month :: string
  temperature_csv :: "error + temp_row frame"
  rainfall_csv :: "error + rain_row frame"
  wind_csv :: "error + wind_row frame"
  standard_normal :: "nat \<Rightarrow> real"
  standard_gamma :: "nat \<Rightarrow> real"
  draw_wind :: "wind_row frame \<Rightarrow> error option"

subsection \<open>\<open>pd.DataFrame\<close> of a dict of columns\<close>

text \<open>Columns of different lengths: "All arrays must be of the same length".\<close>

definition DataFrame_temp :: "string list \<Rightarrow> string list \<Rightarrow> real list \<Rightarrow> real list \<Rightarrow> error + temp_row frame" where
  "DataFrame_temp st mo av la =
     (if length mo = length st \<and> length av = length st \<and> length la = length st
      then Inr (Frame (map (\<lambda>(s, m, a, l).
                  \<lparr>t_State = s, t_Month = m, Avg_Temp = a, t_Latitude = l, t_Longitude = None\<rparr>)
                (zip st (zip mo (zip av la)))))
      else Inl ValueError)"

definition DataFrame_rain :: "string list \<Rightarrow> string list \<Rightarrow> real list \<Rightarrow> error + rain_row frame" where
  "DataFrame_rain st mo ra =
     (if length mo = length st \<and> length ra = length st
      then Inr (Frame (map (\<lambda>(s, m, x). \<lparr>r_State = s, r_Month = m, Rainfall = x\<rparr>)
                (zip st (zip mo ra))))
      else Inl ValueError)"

subsection \<open>dashboard-with-API.py: loading the data\<close>

text \<open>Lines 61-83: every exception of the request becomes \<open>None\<close>.\<close>

definition fetch_api_data :: "world \<Rightarrow> string \<Rightarrow> weather option" where
  "fetch_api_data w city = (case api_get w city of Inl e \<Rightarrow> None | Inr d \<Rightarrow> Some d)"

text \<open>
  Lines 93-115, the loop over \<open>STATE_NAMES.items()\<close> with its three lists. The dict
  \<open>_fetch_api_data\<close> returns has six keys, so \<open>if weather\<close> is the test for \<open>None\<close>.
\<close>

fun api_loop :: "world \<Rightarrow> (string \<times> string) list \<Rightarrow> temp_row list \<Rightarrow> rain_row list \<Rightarrow> wind_row list
    \<Rightarrow> temp_row list \<times> rain_row list \<times> wind_row list" where
  "api_loop w [] temp_data rain_data wind_data = (temp_data, rain_data, wind_data)"
| "api_loop w ((city, state) # rest) temp_data rain_data wind_data =
     (case fetch_api_data w city of
        None \<Rightarrow> api_loop w rest temp_data rain_data wind_data
      | Some d \<Rightarrow>
          api_loop w rest
            (temp_data @ [\<lparr>t_State = state, t_Month = now_month w, Avg_Temp = temp_c d,
                           t_Latitude = lat d, t_Longitude = Some (lon d)\<rparr>])
            (rain_data @ [\<lparr>r_State = state, r_Month = now_month w, Rainfall = precip_mm d\<rparr>])
            (wind_data @ [\<lparr>w_State = state,
                           w_U = wind_kph d * cos (np_radians (wind_degree d)),
                           w_V = wind_kph d * sin (np_radians (wind_degree d)),
                           w_Latitude = lat d, w_Longitude = lon d\<rparr>]))"

text \<open>
  Lines 129-150. \<open>np.linspace(0, 2*np.pi, 12)*len(states)\<close> multiplies each of the twelve
  samples by seven; both dicts are built before the first \<open>pd.DataFrame\<close> is called.
\<close>

definition generate_sample_data :: "error + temp_row frame \<times> rain_row frame \<times> wind_row frame option" where
  "generate_sample_data =
     (let states = map snd STATE_NAMES;
          temp_State = np_repeat states 12;
          temp_Month = list_times months (length states);
          temp_Avg_Temp = map (\<lambda>x. 25 + 10 * x)
            (np_sin (map (\<lambda>x. x * real (length states)) (np_linspace 0 (2 * pi) 12)));
          temp_Latitude = np_repeat [19.7, 28.7, 15.3, 13.1, 27.0, 26.8, 22.9] 12;
          rain_State = np_repeat states 12;
          rain_Month = list_times months (length states);
          rain_Rainfall = map (\<lambda>x. 50 * (1 + 0.5 * x))
            (np_sin (map (\<lambda>x. x * real (length states)) (np_linspace 0 (2 * pi) 12)))
      in and_then (DataFrame_temp temp_State temp_Month temp_Avg_Temp temp_Latitude) (\<lambda>temp_df.
         and_then (DataFrame_rain rain_State rain_Month rain_Rainfall) (\<lambda>rain_df.
         Inr (temp_df, rain_df, None))))"

text \<open>Lines 85-127.\<close>

definition load_weather_data :: "world \<Rightarrow> bool \<Rightarrow> error + temp_row frame \<times> rain_row frame \<times> wind_row frame option" where
  "load_weather_data w use_api =
     (if use_api then
        (case api_loop w STATE_NAMES [] [] [] of
           (temp_data, rain_data, wind_data) \<Rightarrow>
             Inr (DataFrame_records temp_data, DataFrame_records rain_data,
                  Some (DataFrame_records wind_data)))
      else
        except_FileNotFoundError
          (and_then (temperature_csv w) (\<lambda>temp_df.
           and_then (rainfall_csv w) (\<lambda>rain_df.
           Inr (temp_df, rain_df, None))))
          generate_sample_data)"

subsection \<open>dashboard.py: loading the data\<close>

text \<open>
  \<open>np.random.normal(loc, scale, size)\<close> and \<open>np.random.gamma(shape, scale, size)\<close>:
  \<open>size\<close> draws of the standard distribution, scaled and shifted.
\<close>

definition random_normal :: "world \<Rightarrow> real \<Rightarrow> real \<Rightarrow> nat \<Rightarrow> real list" where
  "random_normal w loc scale size' = map (\<lambda>i. loc + scale * standard_normal w i) [0..<size']"

definition random_gamma :: "world \<Rightarrow> real \<Rightarrow> nat \<Rightarrow> real list" where
  "random_gamma w scale size' = map (\<lambda>i. scale * standard_gamma w i) [0..<size']"

text \<open>\<open>df['Avg_Temp'] += array\<close> and \<open>df['Rainfall'] *= array\<close>\<close>

definition add_to_Avg_Temp :: "temp_row frame \<Rightarrow> real list \<Rightarrow> error + temp_row frame" where
  "add_to_Avg_Temp df arr =
     (case df of
        NoColumns \<Rightarrow> Inl KeyError
      | Frame rows \<Rightarrow>
          and_then (series_op (+) (map Avg_Temp rows) arr)
            (\<lambda>vs. Inr (Frame (map2 (\<lambda>r v. r\<lparr>Avg_Temp := v\<rparr>) rows vs))))"

definition multiply_Rainfall :: "rain_row frame \<Rightarrow> real list \<Rightarrow> error + rain_row frame" where
  "multiply_Rainfall df arr =
     (case df of
        NoColumns \<Rightarrow> Inl KeyError
      | Frame rows \<Rightarrow>
          and_then (series_op (*) (map Rainfall rows) arr)
            (\<lambda>vs. Inr (Frame (map2 (\<lambda>r v. r\<lparr>Rainfall := v\<rparr>) rows vs))))"

text \<open>Lines 49-74, the body of the handler.\<close>

definition dashboard_sample_data :: "world \<Rightarrow> error + temp_row frame \<times> rain_row frame" where
  "dashboard_sample_data w =
     (let states = dashboard_states;
          temp_State = np_repeat states 12;
          temp_Month = list_times months (length states);
          temp_Avg_Temp = random_normal w 25 5 (length states * 12);
          temp_Latitude = np_repeat [19.7, 28.7, 15.3, 11.1, 27.0, 26.8, 22.9] 12;
          rain_State = np_repeat states 12;
          rain_Month = list_times months (length states);
          rain_Rainfall = random_gamma w 50 (length states * 12)
      in and_then (DataFrame_temp temp_State temp_Month temp_Avg_Temp temp_Latitude) (\<lambda>temp_df.
         and_then (DataFrame_rain rain_State rain_Month rain_Rainfall) (\<lambda>rain_df.
         and_then (add_to_Avg_Temp temp_df
            (map (\<lambda>x. 10 * x) (np_tile (np_sin (np_linspace 0 (2 * pi) 12)) (length states))))
           (\<lambda>temp_df.
         and_then (multiply_Rainfall rain_df
            (map (\<lambda>x. 1 + 0.5 * x) (np_tile (np_sin (np_linspace 0 (2 * pi) 12)) (length states))))
           (\<lambda>rain_df.
         Inr (temp_df, rain_df))))))"

text \<open>Lines 43-76.\<close>

definition dashboard_load_weather_data :: "world \<Rightarrow> error + temp_row frame \<times> rain_row frame" where
  "dashboard_load_weather_data w =
     except_FileNotFoundError
       (and_then (temperature_csv w) (\<lambda>temp_df.
        and_then (rainfall_csv w) (\<lambda>rain_df.
        Inr (temp_df, rain_df))))
       (dashboard_sample_data w)"

subsection \<open>The renderers\<close>

text \<open>
  The table \<open>rain_df.pivot(index='State', columns='Month', values='Rainfall')\<close> builds:
  the states that occur as row labels and the months that occur as column labels, both
  sorted, and one cell per pair, \<open>None\<close> (NaN) where no row of the frame has the pair.
\<close>

record pivot_table =
  p_index :: "string list"
  p_columns :: "string list"
  p_values :: "real option list list"

text \<open>
  A frame without columns has no \<open>'State'\<close> (KeyError); two rows with the same state and
  month cannot be reshaped (ValueError).
\<close>

definition pivot :: "rain_row frame \<Rightarrow> error + pivot_table" where
  "pivot df =
     (case df of
        NoColumns \<Rightarrow> Inl KeyError
      | Frame rows \<Rightarrow>
          if \<not> distinct (map (\<lambda>r. (r_State r, r_Month r)) rows) then Inl ValueError
          else
            let idx = sort (remdups (map r_State rows));
                cols = sort (remdups (map r_Month rows));
                cell = map_of (map (\<lambda>r. ((r_State r, r_Month r), Rainfall r)) rows)
            in Inr \<lparr>p_index = idx, p_columns = cols,
                    p_values = map (\<lambda>s. map (\<lambda>m. cell (s, m)) cols) idx\<rparr>)"

text \<open>
  \<open>.reindex(columns=cols, fill_value=fill)\<close>: the columns named, in the order named; a
  column the table does not have is filled with \<open>fill\<close>, a column not named is dropped.
\<close>

definition reindex_columns :: "string list \<Rightarrow> real \<Rightarrow> pivot_table \<Rightarrow> pivot_table" where
  "reindex_columns cols fill p =
     \<lparr>p_index = p_index p, p_columns = cols,
      p_values = map (\<lambda>row. map (\<lambda>m. case map_of (zip (p_columns p) row) m of
                                         None \<Rightarrow> Some fill
                                       | Some v \<Rightarrow> v) cols) (p_values p)\<rparr>"

text \<open>\<open>table[cols]\<close>: the columns named, in the order named; KeyError when one is missing.\<close>

definition select_columns :: "string list \<Rightarrow> pivot_table \<Rightarrow> error + pivot_table" where
  "select_columns cols p =
     (if list_all (\<lambda>m. m \<in> set (p_columns p)) cols
      then Inr \<lparr>p_index = p_index p, p_columns = cols,
                p_values = map (\<lambda>row. map (\<lambda>m. case map_of (zip (p_columns p) row) m of
                                                   None \<Rightarrow> None
                                                 | Some v \<Rightarrow> v) cols) (p_values p)\<rparr>
      else Inl KeyError)"

text \<open>
  \<open>plot_rainfall_patterns\<close>, the table handed to \<open>sns.heatmap\<close>: dashboard-with-API.py,
  lines 193-197 (\<open>ordered_months\<close> is the list \<open>months\<close>), and dashboard.py, lines 116-119.
\<close>

definition rain_pivot :: "rain_row frame \<Rightarrow> error + pivot_table" where
  "rain_pivot rain_df = and_then (pivot rain_df) (\<lambda>p. Inr (reindex_columns months 0 p))"

definition dashboard_rain_pivot :: "rain_row frame \<Rightarrow> error + pivot_table" where
  "dashboard_rain_pivot rain_df = and_then (pivot rain_df) (select_columns months)"

text \<open>\<open>temp_df.groupby('State')['Avg_Temp'].mean()\<close>: one mean per state, states sorted.\<close>

definition mean_of :: "real list \<Rightarrow> real" where
  "mean_of xs = sum_list xs / real (length xs)"

definition groupby_State_mean :: "temp_row frame \<Rightarrow> error + (string \<times> real) list" where
  "groupby_State_mean df =
     (case df of
        NoColumns \<Rightarrow> Inl KeyError
      | Frame rows \<Rightarrow>
          Inr (map (\<lambda>s. (s, mean_of (map Avg_Temp (filter (\<lambda>r. t_State r = s) rows))))
                 (sort (remdups (map t_State rows)))))"

text \<open>
  The left join on the state name (\<open>merge(..., on='State', how='left')\<close> and
  \<open>set_index('State').join(...)\<close>): every row of the left table, in its order, once per
  row of the right table with the same key, and once with NaN when there is none.
\<close>

definition left_join :: "geo_row list \<Rightarrow> (string \<times> real) list \<Rightarrow> (geo_row \<times> real option) list" where
  "left_join left right =
     concat (map (\<lambda>g. case filter (\<lambda>(s, v). s = g_State g) right of
                         [] \<Rightarrow> [(g, None)]
                       | ms \<Rightarrow> map (\<lambda>(s, v). (g, Some v)) ms) left)"

text \<open>
  \<open>plot_temperature_heatmap\<close>, the table \<open>merged\<close>: dashboard-with-API.py, lines
  156-161, and dashboard.py, lines 82-84.
\<close>

definition temperature_merged :: "geo_row list \<Rightarrow> temp_row frame \<Rightarrow> error + (geo_row \<times> real option) list" where
  "temperature_merged india_states temp_df =
     and_then (groupby_State_mean temp_df) (\<lambda>agg. Inr (left_join india_states agg))"

definition dashboard_temperature_merged :: "geo_row list \<Rightarrow> temp_row frame \<Rightarrow> error + (geo_row \<times> real option) list" where
  "dashboard_temperature_merged india_states temp_df =
     and_then (groupby_State_mean temp_df) (\<lambda>agg. Inr (left_join india_states agg))"



subsection \<open>Auxiliary notions and example worlds\<close>

text \<open>The states of the cities whose request returns data, in the order of \<open>STATE_NAMES\<close>.\<close>

definition api_states :: "world \<Rightarrow> string list" where
  "api_states w = map snd (filter (\<lambda>(city, state). fetch_api_data w city \<noteq> None) STATE_NAMES)"

definition sample_weather :: weather where
  "sample_weather = \<lparr>temp_c = 31, precip_mm = 2, wind_kph = 10, wind_degree = 0, lat = 19, lon = 73\<rparr>"

definition cached_temp_row :: temp_row where
  "cached_temp_row =
     \<lparr>t_State = ''Delhi'', t_Month = ''Jan'', Avg_Temp = 14, t_Latitude = 28.7, t_Longitude = None\<rparr>"

definition cached_rain_row :: rain_row where
  "cached_rain_row = \<lparr>r_State = ''Delhi'', r_Month = ''Jan'', Rainfall = 20\<rparr>"

text \<open>A world where the API answers for Mumbai only and no data file exists.\<close>

definition world_mumbai_only :: world where
  "world_mumbai_only =
     \<lparr>api_get = (\<lambda>city. if city = ''Mumbai'' then Inr sample_weather else Inl RequestException),
      now_month = ''Jul'',
      temperature_csv = Inl FileNotFoundError,
      rainfall_csv = Inl FileNotFoundError,
      wind_csv = Inl FileNotFoundError,
      standard_normal = (\<lambda>i. 0),
      standard_gamma = (\<lambda>i. 1),
      draw_wind = (\<lambda>df. None)\<rparr>"

text \<open>
  A world where every request fails, the temperature and rainfall files hold one row each
  and the wind file holds its header only.
\<close>

definition world_api_down :: world where
  "world_api_down =
     \<lparr>api_get = (\<lambda>city. Inl RequestException),
      now_month = ''Jul'',
      temperature_csv = Inr (Frame [cached_temp_row]),
      rainfall_csv = Inr (Frame [cached_rain_row]),
      wind_csv = Inr (Frame []),
      standard_normal = (\<lambda>i. 0),
      standard_gamma = (\<lambda>i. 1),
      draw_wind = (\<lambda>df. None)\<rparr>"

text \<open>
  A row of a coordinate table is complete: it has a latitude, a longitude, and the point
  built from them (longitude as x, latitude as y).
\<close>

definition has_point :: "geo_row \<Rightarrow> bool" where
  "has_point r =
     (case (g_Latitude r, g_Longitude r) of
        (Some a, Some b) \<Rightarrow> g_geometry r = Point b a
      | _ \<Rightarrow> False)"

text \<open>
  A geometry row for Tamil Nadu, an observation with exactly that state name and one
  whose state name differs in the case of one letter.
\<close>

definition tamil_nadu_point :: geo_row where
  "tamil_nadu_point =
     \<lparr>g_State = ''Tamil Nadu'', g_Latitude = Some 13.0827, g_Longitude = Some 80.2707,
      g_geometry = Point 80.2707 13.0827\<rparr>"

definition exact_name_row :: temp_row where
  "exact_name_row =
     \<lparr>t_State = ''Tamil Nadu'', t_Month = ''Jul'', Avg_Temp = 28, t_Latitude = 13.1,
      t_Longitude = None\<rparr>"

definition near_miss_row :: temp_row where
  "near_miss_row =
     \<lparr>t_State = ''Tamil nadu'', t_Month = ''Jul'', Avg_Temp = 30, t_Latitude = 13.1,
      t_Longitude = None\<rparr>"

text \<open>Two rainfall rows of one state, for February and January.\<close>

definition rain_feb :: rain_row where
  "rain_feb = \<lparr>r_State = ''Delhi'', r_Month = ''Feb'', Rainfall = 5\<rparr>"

definition rain_jan :: rain_row where
  "rain_jan = \<lparr>r_State = ''Delhi'', r_Month = ''Jan'', Rainfall = 3\<rparr>"

text \<open>One state's rainfall for the twelve months, 10 mm in January up to 120 mm in December.\<close>

definition rain_year :: "rain_row list" where
  "rain_year =
     map (\<lambda>(m, x). \<lparr>r_State = ''Delhi'', r_Month = m, Rainfall = x\<rparr>)
       (zip months [10, 20, 30, 40, 50, 60, 70, 80, 90, 100, 110, 120])"

section \<open>Properties\<close>

subsection \<open>Arrays\<close>

lemma length_np_repeat: "length (np_repeat xs n) = length xs * n"
  by (induction xs) (simp_all add: np_repeat_def)

lemma length_list_times: "length (list_times xs n) = n * length xs"
  by (induction n) (simp_all add: list_times_def)

lemma length_np_tile: "length (np_tile xs n) = n * length xs"
  by (induction n) (simp_all add: np_tile_def)

lemma length_np_linspace: "length (np_linspace a b n) = n"
  by (simp add: np_linspace_def)

lemma length_np_sin: "length (np_sin xs) = length xs"
  by (simp add: np_sin_def)

lemma length_months: "length months = 12"
  by (simp add: months_def)

lemma length_STATE_NAMES: "length STATE_NAMES = 7"
  by (simp add: STATE_NAMES_def)

lemma length_dashboard_states: "length dashboard_states = 7"
  by (simp add: dashboard_states_def)

lemma zip_replicate_const: "zip (replicate (length ys) x) ys = map (Pair x) ys"
  by (induction ys) simp_all

lemma zip_repeat_times:
  "zip (np_repeat xs (length ys)) (list_times ys (length xs)) = List.product xs ys"
  by (induction xs) (simp_all add: np_repeat_def list_times_def zip_replicate_const)



subsection \<open>The synthetic generators\<close>

text \<open>
  C3 (every state and month pair exactly once, 84 rows each, in a synthetic run).
  In dashboard-with-API.py the generator never returns a table: the seasonal arrays
  have twelve entries (\<open>np.linspace(0, 2*np.pi, 12)*len(states)\<close> scales the twelve
  samples by seven, where dashboard.py tiles them seven times), the other columns have
  84, and \<open>pd.DataFrame\<close> raises ValueError on the temperature dict.
\<close>

theorem generate_sample_data_raises: "generate_sample_data = Inl ValueError"
  by (simp add: generate_sample_data_def Let_def DataFrame_temp_def and_then_def
        length_np_repeat length_list_times length_np_sin length_np_linspace
        length_months length_STATE_NAMES)

text \<open>
  dashboard.py's generator does return the two tables, and their (state, month) pairs
  are the product of the seven states and the twelve months, each pair once.
\<close>

lemma dashboard_sample_data_returns:
  "\<exists>temp rain. dashboard_sample_data w = Inr (Frame temp, Frame rain) \<and>
     map (\<lambda>r. (t_State r, t_Month r)) temp = List.product dashboard_states months \<and>
     map (\<lambda>r. (r_State r, r_Month r)) rain = List.product dashboard_states months"
proof -
  have z: "zip (np_repeat dashboard_states 12) (list_times months 7)
             = List.product dashboard_states months"
    using zip_repeat_times[of dashboard_states months]
    by (simp add: length_months length_dashboard_states)
  have l: "length (np_repeat dashboard_states 12) = 84" "length (list_times months 7) = 84"
    by (simp_all add: length_np_repeat length_list_times length_months length_dashboard_states)
  show ?thesis
    apply (simp add: dashboard_sample_data_def Let_def DataFrame_temp_def DataFrame_rain_def
        and_then_def length_np_repeat length_list_times length_np_tile length_np_sin
        length_np_linspace length_months length_dashboard_states random_normal_def
        random_gamma_def add_to_Avg_Temp_def multiply_Rainfall_def series_op_def)
    apply (simp add: z[symmetric] list_eq_iff_nth_eq l length_np_repeat length_np_tile
        length_np_sin length_np_linspace)
    done
qed

lemma dashboard_pairs_exactly_once:
  "\<exists>temp rain. dashboard_sample_data w = Inr (Frame temp, Frame rain) \<and>
     length temp = 84 \<and> length rain = 84 \<and>
     distinct (map (\<lambda>r. (t_State r, t_Month r)) temp) \<and>
     distinct (map (\<lambda>r. (r_State r, r_Month r)) rain) \<and>
     set (map (\<lambda>r. (t_State r, t_Month r)) temp) = set dashboard_states \<times> set months \<and>
     set (map (\<lambda>r. (r_State r, r_Month r)) rain) = set dashboard_states \<times> set months"
proof -
  obtain temp rain where r: "dashboard_sample_data w = Inr (Frame temp, Frame rain)"
    and t: "map (\<lambda>r. (t_State r, t_Month r)) temp = List.product dashboard_states months"
    and n: "map (\<lambda>r. (r_State r, r_Month r)) rain = List.product dashboard_states months"
    using dashboard_sample_data_returns by blast
  have d: "distinct (List.product dashboard_states months)"
    by (rule distinct_product) (simp_all add: dashboard_states_def months_def)
  have l: "length (List.product dashboard_states months) = 84"
    by (simp add: length_months length_dashboard_states)
  have "length temp = 84" using arg_cong[OF t, of length] l by simp
  moreover have "length rain = 84" using arg_cong[OF n, of length] l by simp
  ultimately show ?thesis using r t n d by (simp del: set_map)
qed


text \<open>
  C7 (the fallback coordinate table). Whatever exception reading the shapefile raises,
  both versions return a table of seven rows, one per fixed state and in the order of
  the list of states, each row with its latitude, its longitude and the point built
  from them (longitude as x, latitude as y).
\<close>

theorem fallback_table_has_one_entry_per_location:
  "(\<exists>tbl. load_india_shapefile (Inl e) = Inr tbl \<and>
      map g_State tbl = map snd STATE_NAMES \<and> distinct (map g_State tbl) \<and> length tbl = 7 \<and>
      (\<forall>r \<in> set tbl. has_point r)) \<and>
   (\<exists>tbl. dashboard_load_india_shapefile (Inl e) = Inr tbl \<and>
      map g_State tbl = dashboard_states \<and> distinct (map g_State tbl) \<and> length tbl = 7 \<and>
      (\<forall>r \<in> set tbl. has_point r))"
  by (simp add: load_india_shapefile_def dashboard_load_india_shapefile_def
      except_Exception_def and_then_def points_from_xy_def GeoDataFrame_def STATE_NAMES_def
      dashboard_states_def has_point_def)

theorem fallback_table_witness:
  "(\<exists>tbl. load_india_shapefile (Inl FileNotFoundError) = Inr tbl \<and>
      map g_State tbl = map snd STATE_NAMES \<and> distinct (map g_State tbl) \<and> length tbl = 7 \<and>
      (\<forall>r \<in> set tbl. has_point r)) \<and>
   map g_State (projr (dashboard_load_india_shapefile (Inl FileNotFoundError)))
     = [''Maharashtra'', ''Delhi'', ''Karnataka'', ''Tamil Nadu'', ''Rajasthan'',
        ''Uttar Pradesh'', ''West Bengal'']"
proof -
  from fallback_table_has_one_entry_per_location[of FileNotFoundError]
  obtain tbl where "dashboard_load_india_shapefile (Inl FileNotFoundError) = Inr tbl"
    "map g_State tbl = dashboard_states"
    by blast
  then have "map g_State (projr (dashboard_load_india_shapefile (Inl FileNotFoundError)))
     = [''Maharashtra'', ''Delhi'', ''Karnataka'', ''Tamil Nadu'', ''Rajasthan'',
        ''Uttar Pradesh'', ''West Bengal'']"
    by (simp add: dashboard_states_def)
  with fallback_table_has_one_entry_per_location[of FileNotFoundError] show ?thesis
    by blast
qed

subsection \<open>Loading from the API\<close>

lemma api_loop_states:
  "api_loop w cs td rd wd = (td', rd', wd') \<Longrightarrow>
     map t_State td' = map t_State td @ map snd (filter (\<lambda>(city, state). fetch_api_data w city \<noteq> None) cs) \<and>
     map r_State rd' = map r_State rd @ map snd (filter (\<lambda>(city, state). fetch_api_data w city \<noteq> None) cs) \<and>
     map w_State wd' = map w_State wd @ map snd (filter (\<lambda>(city, state). fetch_api_data w city \<noteq> None) cs)"
proof (induction w cs td rd wd rule: api_loop.induct)
  case (1 w temp_data rain_data wind_data)
  then show ?case by simp
next
  case (2 w city state rest temp_data rain_data wind_data)
  show ?case
  proof (cases "fetch_api_data w city")
    case None
    with 2 show ?thesis by simp
  next
    case (Some d)
    with 2 show ?thesis by simp
  qed
qed

lemma api_loop_ignores_files:
  "api_loop (w\<lparr>temperature_csv := a, rainfall_csv := b\<rparr>) cs td rd wd = api_loop w cs td rd wd"
  by (induction cs arbitrary: td rd wd)
     (auto simp: fetch_api_data_def split: sum.splits)

lemma frame_rows_DataFrame_records: "frame_rows (DataFrame_records rs) = rs"
  by (simp add: DataFrame_records_def)

lemma load_api_states:
  "\<exists>td rd wd. load_weather_data w True = Inr (td, rd, Some wd) \<and>
     map t_State (frame_rows td) = api_states w \<and>
     map r_State (frame_rows rd) = api_states w \<and>
     map w_State (frame_rows wd) = api_states w"
proof -
  obtain td rd wd where l: "api_loop w STATE_NAMES [] [] [] = (td, rd, wd)"
    by (cases "api_loop w STATE_NAMES [] [] []") auto
  from api_loop_states[OF l] show ?thesis
    by (simp add: load_weather_data_def l frame_rows_DataFrame_records api_states_def)
qed

lemma load_api_ignores_files:
  "load_weather_data (w\<lparr>temperature_csv := a, rainfall_csv := b\<rparr>) True = load_weather_data w True"
  by (simp add: load_weather_data_def api_loop_ignores_files)




lemma api_loop_all_failed:
  "\<forall>(city, state) \<in> set cs. fetch_api_data w city = None \<Longrightarrow> api_loop w cs td rd wd = (td, rd, wd)"
  by (induction cs arbitrary: td rd wd) auto

lemma load_api_all_failed:
  assumes "\<forall>city. fetch_api_data w city = None"
  shows "load_weather_data w True = Inr (NoColumns, NoColumns, Some NoColumns)"
proof -
  have "api_loop w STATE_NAMES [] [] [] = ([], [], [])"
    using assms by (intro api_loop_all_failed) auto
  then show ?thesis by (simp add: load_weather_data_def DataFrame_records_def)
qed

lemma fetch_mumbai_only:
  "fetch_api_data world_mumbai_only city = (if city = ''Mumbai'' then Some sample_weather else None)"
  by (simp add: fetch_api_data_def world_mumbai_only_def)

lemma fetch_api_down: "fetch_api_data world_api_down city = None"
  by (simp add: fetch_api_data_def world_api_down_def)



text \<open>
  C10 (in API mode the three tables hold the same states; when every request fails all
  three are empty and nothing else is consulted). For every world, the State columns of
  the three tables of \<open>load_weather_data(use_api=True)\<close> are one and the same list: the
  states of the cities whose request returned data. When every request fails the three
  tables are \<open>pd.DataFrame([])\<close>. The result does not depend on what the data files
  hold.
\<close>

theorem api_tables_hold_the_same_states:
  "(\<exists>td rd wd. load_weather_data w True = Inr (td, rd, Some wd) \<and>
      map t_State (frame_rows td) = api_states w \<and>
      map r_State (frame_rows rd) = api_states w \<and>
      map w_State (frame_rows wd) = api_states w) \<and>
   ((\<forall>city. fetch_api_data w city = None) \<longrightarrow>
      load_weather_data w True = Inr (NoColumns, NoColumns, Some NoColumns)) \<and>
   load_weather_data (w\<lparr>temperature_csv := a, rainfall_csv := b\<rparr>) True = load_weather_data w True"
  using load_api_states load_api_all_failed load_api_ignores_files by blast

theorem api_tables_hold_the_same_states_witness:
  "(\<exists>td rd wd. load_weather_data world_mumbai_only True = Inr (td, rd, Some wd) \<and>
      map t_State (frame_rows td) = [''Maharashtra''] \<and>
      map r_State (frame_rows rd) = [''Maharashtra''] \<and>
      map w_State (frame_rows wd) = [''Maharashtra'']) \<and>
   load_weather_data world_api_down True = Inr (NoColumns, NoColumns, Some NoColumns)"
proof -
  have s: "api_states world_mumbai_only = [''Maharashtra'']"
    by (simp add: api_states_def STATE_NAMES_def fetch_mumbai_only)
  have d: "\<forall>city. fetch_api_data world_api_down city = None"
    by (simp add: fetch_api_down)
  from api_tables_hold_the_same_states[of world_mumbai_only] s
    api_tables_hold_the_same_states[of world_api_down] d
  show ?thesis by simp
qed

subsection \<open>The order of the sources\<close>



lemma load_read_raises:
  assumes "temperature_csv w = Inl e \<or> (temperature_csv w = Inr t \<and> rainfall_csv w = Inl e)"
  shows "load_weather_data w False = (if e = FileNotFoundError then generate_sample_data else Inl e)"
  using assms
  by (auto simp: load_weather_data_def except_FileNotFoundError_def and_then_def)

lemma dashboard_load_read_raises:
  assumes "temperature_csv w = Inl e \<or> (temperature_csv w = Inr t \<and> rainfall_csv w = Inl e)"
  shows "dashboard_load_weather_data w = (if e = FileNotFoundError then dashboard_sample_data w else Inl e)"
  using assms
  by (auto simp: dashboard_load_weather_data_def except_FileNotFoundError_def and_then_def)




text \<open>
  C4 as the claim states it (every failure to read the files falls through to the
  generator) fails: when reading the temperature file raises PermissionError, both
  versions of \<open>load_weather_data\<close> raise PermissionError.
\<close>

theorem unreadable_file_propagates_counterexample:
  "load_weather_data (world_api_down\<lparr>temperature_csv := Inl PermissionError\<rparr>) False
     = Inl PermissionError \<and>
   dashboard_load_weather_data (world_api_down\<lparr>temperature_csv := Inl PermissionError\<rparr>)
     = Inl PermissionError"
  by (simp add: load_weather_data_def dashboard_load_weather_data_def
      except_FileNotFoundError_def and_then_def)

text \<open>
  C4, amended. In non-API mode a read of a data file that raises FileNotFoundError hands
  over to the synthetic generator, whose outcome is the outcome of
  \<open>load_weather_data\<close>; a read that raises any other exception is not caught, and
  \<open>load_weather_data\<close> raises that exception. This holds for the first read that fails
  (the temperature file, or the rainfall file after the temperature file was read), in
  both versions.
\<close>

theorem only_missing_file_falls_through:
  assumes "temperature_csv w = Inl e \<or> (temperature_csv w = Inr t \<and> rainfall_csv w = Inl e)"
  shows "load_weather_data w False
           = (if e = FileNotFoundError then generate_sample_data else Inl e) \<and>
         dashboard_load_weather_data w
           = (if e = FileNotFoundError then dashboard_sample_data w else Inl e)"
  using load_read_raises[OF assms] dashboard_load_read_raises[OF assms] by simp

theorem only_missing_file_falls_through_witness:
  "load_weather_data (world_api_down\<lparr>rainfall_csv := Inl ParserError\<rparr>) False = Inl ParserError \<and>
   dashboard_load_weather_data (world_api_down\<lparr>rainfall_csv := Inl ParserError\<rparr>) = Inl ParserError \<and>
   load_weather_data world_mumbai_only False = generate_sample_data \<and>
   dashboard_load_weather_data world_mumbai_only = dashboard_sample_data world_mumbai_only"
proof -
  have a: "temperature_csv (world_api_down\<lparr>rainfall_csv := Inl ParserError\<rparr>) = Inl ParserError \<or>
      (temperature_csv (world_api_down\<lparr>rainfall_csv := Inl ParserError\<rparr>) = Inr (Frame [cached_temp_row]) \<and>
       rainfall_csv (world_api_down\<lparr>rainfall_csv := Inl ParserError\<rparr>) = Inl ParserError)"
    by (simp add: world_api_down_def)
  have b: "temperature_csv world_mumbai_only = Inl FileNotFoundError \<or>
      (temperature_csv world_mumbai_only = Inr NoColumns \<and>
       rainfall_csv world_mumbai_only = Inl FileNotFoundError)"
    by (simp add: world_mumbai_only_def)
  from only_missing_file_falls_through[OF a] only_missing_file_falls_through[OF b]
  show ?thesis by simp
qed

subsection \<open>The wind renderer\<close>




subsection \<open>The geographic join\<close>

lemma filter_key_distinct:
  "distinct (map fst xs) \<Longrightarrow>
   filter (\<lambda>(s, v). s = k) xs = (case map_of xs k of None \<Rightarrow> [] | Some v \<Rightarrow> [(k, v)])"
proof (induction xs)
  case Nil
  then show ?case by simp
next
  case (Cons a xs)
  obtain s v where a: "a = (s, v)" by (cases a)
  show ?case
  proof (cases "s = k")
    case True
    with Cons.prems a have "k \<notin> fst ` set xs" by simp
    then have "map_of xs k = None" "filter (\<lambda>(s, v). s = k) xs = []"
      by (force simp: map_of_eq_None_iff filter_empty_conv)+
    with True a show ?thesis by simp
  next
    case False
    with Cons a show ?thesis by simp
  qed
qed

lemma map_of_keyed:
  "map_of (map (\<lambda>s. (s, f s)) ks) k = (if k \<in> set ks then Some (f k) else None)"
  by (induction ks) simp_all

lemma left_join_keyed:
  assumes "distinct ks"
  shows "left_join geo (map (\<lambda>s. (s, f s)) ks)
           = map (\<lambda>g. (g, if g_State g \<in> set ks then Some (f (g_State g)) else None)) geo"
proof -
  have d: "distinct (map fst (map (\<lambda>s. (s, f s)) ks))"
    using assms by (simp add: comp_def)
  show ?thesis
    by (induction geo) (simp_all add: left_join_def filter_key_distinct[OF d] map_of_keyed)
qed

lemma temperature_merged_closed_form:
  "temperature_merged india_states (Frame obs) =
     Inr (map (\<lambda>g. (g, if g_State g \<in> set (map t_State obs)
                         then Some (mean_of (map Avg_Temp (filter (\<lambda>r. t_State r = g_State g) obs)))
                         else None)) india_states)"
  using left_join_keyed[of "sort (remdups (map t_State obs))" india_states
      "\<lambda>s. mean_of (map Avg_Temp (filter (\<lambda>r. t_State r = s) obs))"]
  by (simp add: temperature_merged_def groupby_State_mean_def and_then_def del: set_map)

lemma dashboard_temperature_merged_eq:
  "dashboard_temperature_merged india_states temp_df = temperature_merged india_states temp_df"
  by (simp add: dashboard_temperature_merged_def temperature_merged_def)

lemma temperature_merged_drops_unmatched:
  "temperature_merged india_states
     (Frame (filter (\<lambda>r. t_State r \<in> set (map g_State india_states)) obs))
   = temperature_merged india_states (Frame obs)"
proof -
  let ?P = "\<lambda>r. t_State r \<in> set (map g_State india_states)"
  have "(if g_State g \<in> set (map t_State (filter ?P obs))
         then Some (mean_of (map Avg_Temp (filter (\<lambda>r. t_State r = g_State g) (filter ?P obs))))
         else None)
      = (if g_State g \<in> set (map t_State obs)
         then Some (mean_of (map Avg_Temp (filter (\<lambda>r. t_State r = g_State g) obs)))
         else None)" if "g \<in> set india_states" for g
  proof -
    have f: "filter (\<lambda>r. t_State r = g_State g) (filter ?P obs)
               = filter (\<lambda>r. t_State r = g_State g) obs"
      using that by (auto intro: filter_cong)
    have "g_State g \<in> set (map t_State (filter ?P obs)) \<longleftrightarrow> g_State g \<in> set (map t_State obs)"
    proof
      assume "g_State g \<in> set (map t_State (filter ?P obs))"
      then show "g_State g \<in> set (map t_State obs)" by auto
    next
      assume "g_State g \<in> set (map t_State obs)"
      then obtain r where r: "r \<in> set obs" "t_State r = g_State g" by auto
      with that have "?P r" by simp
      with r have "r \<in> set (filter ?P obs)" by simp
      with r(2) show "g_State g \<in> set (map t_State (filter ?P obs))"
        by (metis image_eqI set_map)
    qed
    with f show ?thesis by simp
  qed
  then show ?thesis
    by (simp add: temperature_merged_closed_form del: set_map)
qed

text \<open>
  C9 (the join on the state name is an exact string match). In both versions, the merged
  table has the geometry rows in their order, and the value joined to a geometry row is
  the mean of the observations whose state name is equal to that row's state name, NaN
  (\<open>None\<close>) when there is none: no other observation contributes. Hence the
  observations whose state name equals no geometry row's state name can be removed
  without changing the merged table.
\<close>

theorem temperature_join_is_exact_match:
  "temperature_merged india_states (Frame obs) =
     Inr (map (\<lambda>g. (g, if g_State g \<in> set (map t_State obs)
                         then Some (mean_of (map Avg_Temp (filter (\<lambda>r. t_State r = g_State g) obs)))
                         else None)) india_states) \<and>
   dashboard_temperature_merged india_states (Frame obs)
     = temperature_merged india_states (Frame obs) \<and>
   temperature_merged india_states
     (Frame (filter (\<lambda>r. t_State r \<in> set (map g_State india_states)) obs))
     = temperature_merged india_states (Frame obs)"
  using temperature_merged_closed_form dashboard_temperature_merged_eq
    temperature_merged_drops_unmatched
  by blast

theorem temperature_join_near_miss_witness:
  "temperature_merged [tamil_nadu_point] (Frame [near_miss_row, exact_name_row])
     = Inr [(tamil_nadu_point, Some 28)] \<and>
   temperature_merged [tamil_nadu_point] (Frame [near_miss_row])
     = Inr [(tamil_nadu_point, None)] \<and>
   dashboard_temperature_merged [tamil_nadu_point] (Frame [near_miss_row])
     = Inr [(tamil_nadu_point, None)]"
  using temperature_join_is_exact_match[of "[tamil_nadu_point]" "[near_miss_row, exact_name_row]"]
    temperature_join_is_exact_match[of "[tamil_nadu_point]" "[near_miss_row]"]
  by (simp add: tamil_nadu_point_def near_miss_row_def exact_name_row_def mean_of_def)

subsection \<open>The rainfall pivot\<close>

lemma sort_remdups_set_eq:
  "set xs = set ys \<Longrightarrow> sort (remdups xs) = sort (remdups ys)"
  by (metis sorted_list_of_set_sort_remdups)

lemma pivot_permutation:
  assumes "mset rows1 = mset rows2"
  shows "pivot (Frame rows1) = pivot (Frame rows2)"
proof -
  let ?k = "\<lambda>r. (r_State r, r_Month r)"
  let ?kv = "\<lambda>r. (?k r, Rainfall r)"
  have m: "mset (map ?k rows1) = mset (map ?k rows2)"
    using assms by (metis mset_map)
  have d: "distinct (map ?k rows1) = distinct (map ?k rows2)"
    by (rule mset_eq_imp_distinct_iff[OF m])
  have s: "set rows1 = set rows2"
    by (rule mset_eq_setD[OF assms])
  have i: "sort (remdups (map r_State rows1)) = sort (remdups (map r_State rows2))"
    by (rule sort_remdups_set_eq) (simp add: s)
  have c: "sort (remdups (map r_Month rows1)) = sort (remdups (map r_Month rows2))"
    by (rule sort_remdups_set_eq) (simp add: s)
  have v: "map_of (map ?kv rows1) = map_of (map ?kv rows2)" if "distinct (map ?k rows1)"
  proof -
    have "distinct (map fst (map ?kv rows1))" "distinct (map fst (map ?kv rows2))"
      using that d by (simp_all add: comp_def)
    moreover have "set (map ?kv rows1) = set (map ?kv rows2)" by (simp add: s)
    ultimately show ?thesis by (simp only: map_of_inject_set)
  qed
  show ?thesis
  proof (cases "distinct (map ?k rows1)")
    case True
    with d v i c show ?thesis by (simp add: pivot_def Let_def)
  next
    case False
    with d show ?thesis by (simp add: pivot_def)
  qed
qed

lemma rain_pivot_columns: "rain_pivot df = Inr p \<Longrightarrow> p_columns p = months"
  by (auto simp: rain_pivot_def and_then_def reindex_columns_def split: sum.splits)

lemma dashboard_rain_pivot_columns: "dashboard_rain_pivot df = Inr p \<Longrightarrow> p_columns p = months"
  by (auto simp: dashboard_rain_pivot_def and_then_def select_columns_def split: sum.splits if_splits)

text \<open>
  C5 (the pivoted rainfall table is in the canonical month order whatever the order of
  the rows). In both versions, two frames whose rows are permutations of each other
  give the same outcome of the pivot step (the same table, or the same exception), and
  a table that is returned has the twelve months Jan to Dec as its columns, in that
  order.
\<close>

theorem rain_pivot_row_order_irrelevant:
  assumes "mset rows1 = mset rows2"
  shows "rain_pivot (Frame rows1) = rain_pivot (Frame rows2) \<and>
         dashboard_rain_pivot (Frame rows1) = dashboard_rain_pivot (Frame rows2) \<and>
         (\<forall>p. rain_pivot (Frame rows1) = Inr p \<longrightarrow> p_columns p = months) \<and>
         (\<forall>p. dashboard_rain_pivot (Frame rows1) = Inr p \<longrightarrow> p_columns p = months)"
  using pivot_permutation[OF assms] rain_pivot_columns dashboard_rain_pivot_columns
  by (simp add: rain_pivot_def dashboard_rain_pivot_def)

lemma rain_pivot_example:
  "rain_pivot (Frame [rain_feb, rain_jan]) =
     Inr \<lparr>p_index = [''Delhi''], p_columns = months,
          p_values = [[Some 3, Some 5, Some 0, Some 0, Some 0, Some 0,
                       Some 0, Some 0, Some 0, Some 0, Some 0, Some 0]]\<rparr>"
  by (simp add: rain_pivot_def pivot_def and_then_def reindex_columns_def rain_feb_def
      rain_jan_def Let_def months_def)

lemma dashboard_rain_pivot_example:
  "dashboard_rain_pivot (Frame [rain_feb, rain_jan]) = Inl KeyError"
  by (simp add: dashboard_rain_pivot_def pivot_def and_then_def select_columns_def rain_feb_def
      rain_jan_def Let_def months_def)

lemma rain_pivot_year:
  "rain_pivot (Frame (rev rain_year)) =
     Inr \<lparr>p_index = [''Delhi''], p_columns = months,
          p_values = [[Some 10, Some 20, Some 30, Some 40, Some 50, Some 60,
                       Some 70, Some 80, Some 90, Some 100, Some 110, Some 120]]\<rparr>"
  by (simp add: rain_pivot_def pivot_def and_then_def reindex_columns_def rain_year_def
      Let_def months_def)

lemma dashboard_rain_pivot_year:
  "dashboard_rain_pivot (Frame (rev rain_year)) =
     Inr \<lparr>p_index = [''Delhi''], p_columns = months,
          p_values = [[Some 10, Some 20, Some 30, Some 40, Some 50, Some 60,
                       Some 70, Some 80, Some 90, Some 100, Some 110, Some 120]]\<rparr>"
  by (simp add: dashboard_rain_pivot_def pivot_def and_then_def select_columns_def rain_year_def
      Let_def months_def)

theorem rain_pivot_row_order_witness:
  "mset (rev rain_year) = mset rain_year \<and>
   rain_pivot (Frame rain_year) =
     Inr \<lparr>p_index = [''Delhi''], p_columns = months,
          p_values = [[Some 10, Some 20, Some 30, Some 40, Some 50, Some 60,
                       Some 70, Some 80, Some 90, Some 100, Some 110, Some 120]]\<rparr> \<and>
   dashboard_rain_pivot (Frame rain_year) =
     Inr \<lparr>p_index = [''Delhi''], p_columns = months,
          p_values = [[Some 10, Some 20, Some 30, Some 40, Some 50, Some 60,
                       Some 70, Some 80, Some 90, Some 100, Some 110, Some 120]]\<rparr> \<and>
   mset [rain_jan, rain_feb] = mset [rain_feb, rain_jan] \<and>
   rain_pivot (Frame [rain_jan, rain_feb]) =
     Inr \<lparr>p_index = [''Delhi''], p_columns = months,
          p_values = [[Some 3, Some 5, Some 0, Some 0, Some 0, Some 0,
                       Some 0, Some 0, Some 0, Some 0, Some 0, Some 0]]\<rparr> \<and>
   dashboard_rain_pivot (Frame [rain_jan, rain_feb]) = Inl KeyError"
proof -
  have y: "mset (rev rain_year) = mset rain_year" by simp
  have p: "mset [rain_jan, rain_feb] = mset [rain_feb, rain_jan]" by simp
  from rain_pivot_row_order_irrelevant[OF y]
  have a: "rain_pivot (Frame (rev rain_year)) = rain_pivot (Frame rain_year)"
    "dashboard_rain_pivot (Frame (rev rain_year)) = dashboard_rain_pivot (Frame rain_year)"
    by blast+
  from rain_pivot_row_order_irrelevant[OF p]
  have b: "rain_pivot (Frame [rain_jan, rain_feb]) = rain_pivot (Frame [rain_feb, rain_jan])"
    "dashboard_rain_pivot (Frame [rain_jan, rain_feb])
       = dashboard_rain_pivot (Frame [rain_feb, rain_jan])"
    by blast+
  have "rain_pivot (Frame rain_year) =
     Inr \<lparr>p_index = [''Delhi''], p_columns = months,
          p_values = [[Some 10, Some 20, Some 30, Some 40, Some 50, Some 60,
                       Some 70, Some 80, Some 90, Some 100, Some 110, Some 120]]\<rparr>"
    by (simp only: a(1)[symmetric] rain_pivot_year)
  moreover have "dashboard_rain_pivot (Frame rain_year) =
     Inr \<lparr>p_index = [''Delhi''], p_columns = months,
          p_values = [[Some 10, Some 20, Some 30, Some 40, Some 50, Some 60,
                       Some 70, Some 80, Some 90, Some 100, Some 110, Some 120]]\<rparr>"
    by (simp only: a(2)[symmetric] dashboard_rain_pivot_year)
  moreover have "rain_pivot (Frame [rain_jan, rain_feb]) =
     Inr \<lparr>p_index = [''Delhi''], p_columns = months,
          p_values = [[Some 3, Some 5, Some 0, Some 0, Some 0, Some 0,
                       Some 0, Some 0, Some 0, Some 0, Some 0, Some 0]]\<rparr>"
    by (simp only: b(1) rain_pivot_example)
  moreover have "dashboard_rain_pivot (Frame [rain_jan, rain_feb]) = Inl KeyError"
    by (simp only: b(2) dashboard_rain_pivot_example)
  ultimately show ?thesis using y p by blast
qed

end
